theory Spec2Isabelle
  imports Main
begin

section \<open>The execution subagent tool\<close>

text \<open>
  A shallow embedding of \<^verbatim>\<open>ExecutionSubagentTool\<close> (its methods \<^verbatim>\<open>invoke\<close>,
  \<^verbatim>\<open>prepareInvocation\<close> and \<^verbatim>\<open>resolveInput\<close>) and of
  \<^verbatim>\<open>ExecutionSubagentPrompt.render\<close>.

  Conventions of the embedding:
  \<^item> an interface or object literal is a \<^theory_text>\<open>record\<close>, a class built with
    \<^verbatim>\<open>new\<close> is a \<^theory_text>\<open>datatype\<close> whose constructor takes the arguments in the
    order of the call; a field name used by several of them is written qualified
    (\<open>Turn.request\<close>, \<open>IBuildPromptContext.request\<close>);
  \<^item> a value that may be \<^verbatim>\<open>undefined\<close> is an \<open>option\<close>, \<open>None\<close> being
    \<^verbatim>\<open>undefined\<close>;
  \<^item> a thrown exception (a rejected promise of an \<^verbatim>\<open>async\<close> method) is the
    \<open>Inl\<close> of a sum;
  \<^item> the field \<^verbatim>\<open>_inputContext\<close> is written \<open>inputContext\<close>, the field
    \<^verbatim>\<open>round\<close> of a loop result \<open>round'\<close>, the \<^verbatim>\<open>id\<close> of a turn
    \<open>turn_id\<close>;
  \<^item> strings are \<open>string\<close>; the operations used here (concatenation, comparison with
    the empty string) do not depend on the width of a character.
\<close>

subsection \<open>Strings and arrays of the host language\<close>

text \<open>\<^verbatim>\<open>Array.prototype.join\<close> on an array of strings.\<close>

fun join :: "string \<Rightarrow> string list \<Rightarrow> string" where
  "join sep [] = ''''"
| "join sep [x] = x"
| "join sep (x # y # ys) = x @ sep @ join sep (y # ys)"

text \<open>\<^verbatim>\<open>Array.prototype.at(-1)\<close>: the last element, \<^verbatim>\<open>undefined\<close> on an empty array.\<close>

definition at_last :: "'a list \<Rightarrow> 'a option" where
  "at_last xs = (if xs = [] then None else Some (last xs))"

text \<open>
  \<^verbatim>\<open>a ?? b\<close> where \<open>b\<close> may itself be \<^verbatim>\<open>undefined\<close>. The operator associates
  to the left, so \<^verbatim>\<open>a ?? b ?? c\<close> is \<^verbatim>\<open>(a ?? b) ?? c\<close>; \<^verbatim>\<open>x?.f\<close> is
  \<open>Option.bind x f\<close> for a field \<open>f\<close> that may be \<^verbatim>\<open>undefined\<close>.
\<close>

definition nullish :: "'a option \<Rightarrow> 'a option \<Rightarrow> 'a option" where
  "nullish a b = (case a of None \<Rightarrow> b | Some x \<Rightarrow> Some x)"

text \<open>
  The text a template literal substitutes for \<^verbatim>\<open>${v}\<close> when \<open>v\<close> is a string or
  \<^verbatim>\<open>undefined\<close>.
\<close>

definition ToString :: "string option \<Rightarrow> string" where
  "ToString v = (case v of None \<Rightarrow> ''undefined'' | Some s \<Rightarrow> s)"

subsection \<open>Data\<close>

record IExecutionSubagentParams =
  command :: string
  objective :: string
  description :: string

record LanguageModelToolInvocationOptions =
  input :: IExecutionSubagentParams

record LanguageModelToolInvocationPrepareOptions =
  input :: IExecutionSubagentParams

record PreparedToolInvocation =
  invocationMessage :: string

datatype CancellationToken = CancellationToken (isCancellationRequested: bool)

datatype LanguageModelTextPart = LanguageModelTextPart string

datatype ExtendedLanguageModelToolResult =
  ExtendedLanguageModelToolResult "LanguageModelTextPart list"

text \<open>
  Enumerations and classes that the tool imports from other modules
  (\<^verbatim>\<open>toolNames\<close>, \<^verbatim>\<open>toolsRegistry\<close>, \<^verbatim>\<open>commonTypes\<close>, \<^verbatim>\<open>vscodeTypes\<close>,
  \<^verbatim>\<open>conversation\<close>, \<^verbatim>\<open>intents\<close>, \<^verbatim>\<open>subagentLoop\<close>). An enumeration is given
  the members the tool names and one further constructor standing for every other member;
  an interface is given the fields the tool and the prompt read.
\<close>

datatype ToolName = CoreRunInTerminal | ExecutionSubagent | OtherTool string

datatype CopilotToolMode = PartialContext | FullContext

datatype PromptClass = ExecutionSubagentPrompt | OtherPrompt string

text \<open>
  \<^verbatim>\<open>ChatFetchResponseType\<close>: \<open>Success\<close> is the member the source compares with; any
  other member is \<open>Failure t\<close>, where \<open>t\<close> is the text that a template literal
  renders for it.
\<close>

datatype ChatFetchResponseType = Success | Failure string

record ChatResponse =
  type :: ChatFetchResponseType
  reason :: "string option"

record IToolCallRound =
  response :: "string option"

record IToolCallLoopResult =
  response :: ChatResponse
  toolCallRounds :: "IToolCallRound list"
  round' :: IToolCallRound

type_synonym ChatLocation = nat

record ChatRequest =
  location :: ChatLocation

text \<open>
  The parts of a response stream: the three classes the source tests with
  \<^verbatim>\<open>instanceof\<close>, each with its content, and \<open>OtherPart c x\<close> for a part of any
  other class \<open>c\<close>.
\<close>

datatype ExtendedChatResponsePart =
    ChatPrepareToolInvocationPart string
  | ChatResponseTextEditPart string
  | ChatResponseNotebookEditPart string
  | OtherPart string string

text \<open>
  A response stream is what it does with a part pushed into it, as a change of the state
  \<open>'w\<close> of everything outside the tool (the user interface that shows the parts).
\<close>

type_synonym 'w ChatResponseStream = "ExtendedChatResponsePart \<Rightarrow> 'w \<Rightarrow> 'w"

record TurnMessage =
  type :: string
  message :: string

datatype Turn = Turn (turn_id: string) (request: TurnMessage)

datatype Conversation = Conversation (sessionId: string) (turns: "Turn list")

type_synonym ToolCallResults = "string \<rightharpoonup> ExtendedLanguageModelToolResult"

record 'w IBuildPromptContext =
  request :: "ChatRequest option"
  stream :: "'w ChatResponseStream option"
  conversation :: "Conversation option"
  toolCallRounds :: "IToolCallRound list option"
  toolCallResults :: "ToolCallResults option"

text \<open>The options object handed to \<^verbatim>\<open>SubagentToolCallingLoop\<close>.\<close>

record LoopOptions =
  toolCallLimit :: nat
  conversation :: Conversation
  request :: ChatRequest
  location :: ChatLocation
  promptText :: string
  allowedTools :: "ToolName set"
  customPromptClass :: PromptClass

datatype error = TypeError | Thrown string

text \<open>
  The loop is an external collaborator. \<^verbatim>\<open>createInstance(SubagentToolCallingLoop, options)\<close>
  followed by \<^verbatim>\<open>run(stream, token)\<close> is a function of the options, the stream and the
  token that changes the outside state (by pushing parts into the stream it was given, or
  otherwise) and returns a loop result or throws; a loop that cannot be created is one
  that throws whatever it is run with.
\<close>

type_synonym 'w SubagentToolCallingLoop =
  "'w ChatResponseStream option \<Rightarrow> CancellationToken \<Rightarrow> 'w
     \<Rightarrow> (error + IToolCallLoopResult) \<times> 'w"

type_synonym 'w IInstantiationService = "LoopOptions \<Rightarrow> 'w SubagentToolCallingLoop"

record 'w ExecutionSubagentTool =
  instantiationService :: "'w IInstantiationService"
  inputContext :: "'w IBuildPromptContext option"

record 'w GenericBasePromptElementProps =
  promptContext :: "'w IBuildPromptContext"

text \<open>The elements \<^verbatim>\<open>render\<close> returns, with their properties in the order of the source.\<close>

datatype 'w PromptPiece =
    UserMessage "string option"
  | ChatToolCalls nat nat "'w IBuildPromptContext" "IToolCallRound list option"
      "ToolCallResults option" CopilotToolMode

subsection \<open>The response stream filter\<close>

text \<open>
  Modelled from the spec: \<^verbatim>\<open>ChatResponseStreamImpl.filter\<close>, whose code (module
  \<^verbatim>\<open>util/common/chatResponseStreamImpl\<close>) is missing. The spec describes
  its result as a projected sink that forwards to the outer sink only the events that
  satisfy the predicate, synchronously, in order, without buffering.
\<close>

definition ChatResponseStreamImpl_filter ::
  "'w ChatResponseStream \<Rightarrow> (ExtendedChatResponsePart \<Rightarrow> bool) \<Rightarrow> 'w ChatResponseStream" where
  "ChatResponseStreamImpl_filter outer callback =
     (\<lambda>part w. if callback part then outer part w else w)"

text \<open>Pushing a sequence of parts into a stream, one after the other.\<close>

definition push_all :: "'w ChatResponseStream \<Rightarrow> ExtendedChatResponsePart list \<Rightarrow> 'w \<Rightarrow> 'w" where
  "push_all s parts w = fold s parts w"

text \<open>A stream that records the parts it receives, in the order of their arrival.\<close>

definition recording :: "ExtendedChatResponsePart list ChatResponseStream" where
  "recording part w = w @ [part]"

subsection \<open>\<^verbatim>\<open>ExecutionSubagentTool\<close>\<close>

text \<open>Lines 36 to 57: the instruction, an array of lines joined by a line feed.\<close>

definition executionInstruction :: "LanguageModelToolInvocationOptions \<Rightarrow> string" where
  \<open>executionInstruction options = join ''\<newline>'' [
     ''Command: '' @ command (LanguageModelToolInvocationOptions.input options),
     ''Objective: '' @ objective (LanguageModelToolInvocationOptions.input options),
     '''',
     ''You are a specialized execution subagent. Your task is to execute the above command and extract relevant excerpts of its output according to the purpose described in the objective.'',
     ''You have access to just one tool:'',
     ''- run_in_terminal: Executes a command in the terminal and returns the output.'',
     '''',
     ''After completing your search, return ONLY a valid JSON array of the most relevant execution output excerpts in this exact format:'',
     ''['',
     ''  {'',
     ''    "output": "Excerpt of the command output here"'',
     '' '' @ [CHR 0x09] @ '' "return_code": 0'',
     ''  }'',
     '']'',
     '''',
     ''Include only the most relevant excerpts that would help satisfy the objective.'',
     ''The "return_code" field should capture the command's return code.'',
     ''The `output` can be an empty string if there is no relevant output.'',
     ''Do not include any explanation or additional text, only the JSON array.'',
     '''']\<close>

text \<open>
  Lines 59 to 67: the options of the loop. Reading \<^verbatim>\<open>request\<close> of an
  \<^verbatim>\<open>undefined\<close> context, or \<^verbatim>\<open>location\<close> of an \<^verbatim>\<open>undefined\<close> request,
  throws a \<^verbatim>\<open>TypeError\<close>.
\<close>

definition loopOptions ::
  "'w IBuildPromptContext option \<Rightarrow> LanguageModelToolInvocationOptions \<Rightarrow> error + LoopOptions" where
  "loopOptions ctx options =
     (case ctx of
        None \<Rightarrow> Inl TypeError
      | Some c \<Rightarrow>
          (case IBuildPromptContext.request c of
             None \<Rightarrow> Inl TypeError
           | Some req \<Rightarrow> Inr \<lparr>
               LoopOptions.toolCallLimit = 25,
               LoopOptions.conversation =
                 Conversation '''' [Turn '''' \<lparr>TurnMessage.type = ''user'',
                                            TurnMessage.message = executionInstruction options\<rparr>],
               LoopOptions.request = req,
               LoopOptions.location = ChatRequest.location req,
               LoopOptions.promptText = command (LanguageModelToolInvocationOptions.input options),
               LoopOptions.allowedTools = {CoreRunInTerminal},
               LoopOptions.customPromptClass = ExecutionSubagentPrompt\<rparr>))"

text \<open>Line 71: the predicate of the filter.\<close>

fun kept :: "ExtendedChatResponsePart \<Rightarrow> bool" where
  "kept (ChatPrepareToolInvocationPart _) = True"
| "kept (ChatResponseTextEditPart _) = True"
| "kept (ChatResponseNotebookEditPart _) = True"
| "kept (OtherPart _ _) = False"

text \<open>
  Lines 69 to 72: \<^verbatim>\<open>this._inputContext?.stream && ChatResponseStreamImpl.filter(...)\<close>.
  A stream object is truthy, so the conjunction is \<^verbatim>\<open>undefined\<close> exactly when the
  context or its stream is.
\<close>

definition filteredStream :: "'w IBuildPromptContext option \<Rightarrow> 'w ChatResponseStream option" where
  "filteredStream ctx =
     (case ctx of
        None \<Rightarrow> None
      | Some c \<Rightarrow>
          (case IBuildPromptContext.stream c of
             None \<Rightarrow> None
           | Some outer \<Rightarrow> Some (ChatResponseStreamImpl_filter outer kept)))"

text \<open>
  Lines 76 to 81: the text of the result. The \<^verbatim>\<open>else\<close> branch is the branch of every
  response type other than \<open>Success\<close>.
\<close>

definition subagentResponse :: "IToolCallLoopResult \<Rightarrow> string" where
  "subagentResponse loopResult =
     (case ChatResponse.type (IToolCallLoopResult.response loopResult) of
        Success \<Rightarrow>
          (case nullish
                  (Option.bind (at_last (IToolCallLoopResult.toolCallRounds loopResult))
                     IToolCallRound.response)
                  (IToolCallRound.response (round' loopResult)) of
             Some s \<Rightarrow> s
           | None \<Rightarrow> '''')
      | Failure t \<Rightarrow>
          ''The search subagent request failed with this message:\<newline>''
            @ t @ '': '' @ ToString (reason (IToolCallLoopResult.response loopResult)))"

definition invoke ::
  "'w ExecutionSubagentTool \<Rightarrow> LanguageModelToolInvocationOptions \<Rightarrow> CancellationToken \<Rightarrow> 'w
     \<Rightarrow> (error + ExtendedLanguageModelToolResult) \<times> 'w" where
  "invoke this options token w =
     (case loopOptions (inputContext this) options of
        Inl e \<Rightarrow> (Inl e, w)
      | Inr opts \<Rightarrow>
          (let loop = instantiationService this opts;
               stream = filteredStream (inputContext this)
           in case loop stream token w of
                (Inl e, w') \<Rightarrow> (Inl e, w')
              | (Inr loopResult, w') \<Rightarrow>
                  (Inr (ExtendedLanguageModelToolResult
                         [LanguageModelTextPart (subagentResponse loopResult)]), w')))"

definition prepareInvocation ::
  "LanguageModelToolInvocationPrepareOptions \<Rightarrow> CancellationToken \<Rightarrow> PreparedToolInvocation" where
  "prepareInvocation options token =
     \<lparr>invocationMessage = description (LanguageModelToolInvocationPrepareOptions.input options)\<rparr>"

definition resolveInput ::
  "'w ExecutionSubagentTool \<Rightarrow> IExecutionSubagentParams \<Rightarrow> 'w IBuildPromptContext
     \<Rightarrow> CopilotToolMode \<Rightarrow> IExecutionSubagentParams \<times> 'w ExecutionSubagentTool" where
  "resolveInput this inp promptContext' mode =
     (inp, this\<lparr>inputContext := Some promptContext'\<rparr>)"

subsection \<open>\<^verbatim>\<open>ExecutionSubagentPrompt\<close>\<close>

definition render :: "'w GenericBasePromptElementProps \<Rightarrow> 'w PromptPiece list" where
  "render props =
     (let pc = promptContext props;
          instruction =
            (case IBuildPromptContext.conversation pc of
               None \<Rightarrow> None
             | Some c \<Rightarrow>
                 (case turns c of
                    [] \<Rightarrow> None
                  | t # _ \<Rightarrow> Some (TurnMessage.message (Turn.request t))))
      in [UserMessage instruction,
          ChatToolCalls 899 2 pc (IBuildPromptContext.toolCallRounds pc)
            (IBuildPromptContext.toolCallResults pc) FullContext])"

subsection \<open>A loop for concrete runs\<close>

text \<open>
  A loop that pushes the given parts into the stream it receives, if it receives one, and
  returns the given result.
\<close>

definition replaying ::
  "ExtendedChatResponsePart list \<Rightarrow> IToolCallLoopResult \<Rightarrow> 'w IInstantiationService" where
  "replaying parts loopResult opts sink token w =
     (Inr loopResult, case sink of None \<Rightarrow> w | Some s \<Rightarrow> push_all s parts w)"

text \<open>
  The request of the scenario (list the files of the current directory), a prompt context
  with a request and the given stream, and a tool bound to that context whose loop replays
  the given parts and result.
\<close>

definition listing :: LanguageModelToolInvocationOptions where
  "listing = \<lparr>LanguageModelToolInvocationOptions.input =
     \<lparr>command = ''ls -la'', objective = ''list files in current directory'',
      description = ''Listing files''\<rparr>\<rparr>"

definition bound_context :: "'w ChatResponseStream option \<Rightarrow> 'w IBuildPromptContext" where
  "bound_context s = \<lparr>IBuildPromptContext.request = Some \<lparr>ChatRequest.location = 1\<rparr>,
     stream = s, IBuildPromptContext.conversation = None,
     IBuildPromptContext.toolCallRounds = None, toolCallResults = None\<rparr>"

definition scenario_tool ::
  "ExtendedChatResponsePart list \<Rightarrow> IToolCallLoopResult
     \<Rightarrow> ExtendedChatResponsePart list ChatResponseStream option
     \<Rightarrow> ExtendedChatResponsePart list ExecutionSubagentTool" where
  "scenario_tool parts loopResult s =
     \<lparr>instantiationService = replaying parts loopResult,
      inputContext = Some (bound_context s)\<rparr>"

text \<open>
  Instantiation services that refuse (the loop throws) options with another set of allowed
  tools, or with another tool call limit.
\<close>

definition terminal_only :: "'w IInstantiationService \<Rightarrow> 'w IInstantiationService" where
  "terminal_only f opts =
     (if allowedTools opts = {CoreRunInTerminal} then f opts
      else (\<lambda>sink token w. (Inl (Thrown ''refused''), w)))"

definition limit_25_only :: "'w IInstantiationService \<Rightarrow> 'w IInstantiationService" where
  "limit_25_only f opts =
     (if toolCallLimit opts = 25 then f opts
      else (\<lambda>sink token w. (Inl (Thrown ''refused''), w)))"

section \<open>Properties\<close>

subsection \<open>Auxiliary facts\<close>

text \<open>The options are built exactly when the context and its request are bound.\<close>

lemma loopOptions_bound:
  "IBuildPromptContext.request c = Some req \<Longrightarrow>
   loopOptions (Some c) options = Inr \<lparr>
     LoopOptions.toolCallLimit = 25,
     LoopOptions.conversation =
       Conversation '''' [Turn '''' \<lparr>TurnMessage.type = ''user'',
                                  TurnMessage.message = executionInstruction options\<rparr>],
     LoopOptions.request = req,
     LoopOptions.location = ChatRequest.location req,
     LoopOptions.promptText = command (LanguageModelToolInvocationOptions.input options),
     LoopOptions.allowedTools = {CoreRunInTerminal},
     LoopOptions.customPromptClass = ExecutionSubagentPrompt\<rparr>"
  by (simp add: loopOptions_def)

lemma loopOptions_Inr:
  "loopOptions ctx options = Inr opts \<Longrightarrow>
   \<exists>c req. ctx = Some c \<and> IBuildPromptContext.request c = Some req"
  by (auto simp: loopOptions_def split: option.splits)

lemma loopOptions_unbound:
  "loopOptions None options = Inl TypeError"
  "IBuildPromptContext.request c = None \<Longrightarrow> loopOptions (Some c) options = Inl TypeError"
  by (simp_all add: loopOptions_def)

lemma loopOptions_bound_context:
  "\<exists>opts. loopOptions (Some (bound_context s)) options = Inr opts"
  by (simp add: bound_context_def loopOptions_def)

lemma loopOptions_scenario:
  "\<exists>opts. loopOptions (inputContext (scenario_tool parts loopResult s)) options = Inr opts"
  by (simp add: scenario_tool_def loopOptions_bound_context)

text \<open>What \<open>invoke\<close> returns once the options are built, by the outcome of the loop.\<close>

lemma invoke_returns:
  assumes "loopOptions (inputContext this) options = Inr opts"
    and "instantiationService this opts (filteredStream (inputContext this)) token w
           = (Inr loopResult, w')"
  shows "invoke this options token w =
           (Inr (ExtendedLanguageModelToolResult
                  [LanguageModelTextPart (subagentResponse loopResult)]), w')"
  using assms by (simp add: invoke_def)

lemma invoke_throws:
  assumes "loopOptions (inputContext this) options = Inr opts"
    and "instantiationService this opts (filteredStream (inputContext this)) token w
           = (Inl e, w')"
  shows "invoke this options token w = (Inl e, w')"
  using assms by (simp add: invoke_def)

lemma invoke_unbound:
  "loopOptions (inputContext this) options = Inl e \<Longrightarrow> invoke this options token w = (Inl e, w)"
  by (simp add: invoke_def)

text \<open>
  \<open>invoke\<close> consults the instantiation service at the options it has built and nowhere
  else.
\<close>

lemma invoke_service_cong:
  assumes "\<And>opts. loopOptions (inputContext this) options = Inr opts \<Longrightarrow> f opts = g opts"
  shows "invoke (this\<lparr>instantiationService := f\<rparr>) options token w
           = invoke (this\<lparr>instantiationService := g\<rparr>) options token w"
  using assms by (simp add: invoke_def split: sum.splits)

lemma subagentResponse_Failure:
  "ChatResponse.type (IToolCallLoopResult.response loopResult) = Failure K \<Longrightarrow>
   subagentResponse loopResult =
     ''The search subagent request failed with this message:\<newline>'' @ K @ '': ''
       @ ToString (reason (IToolCallLoopResult.response loopResult))"
  by (simp add: subagentResponse_def)

lemma subagentResponse_Success:
  "ChatResponse.type (IToolCallLoopResult.response loopResult) = Success \<Longrightarrow>
   subagentResponse loopResult =
     (case nullish
             (Option.bind (at_last (IToolCallLoopResult.toolCallRounds loopResult))
                IToolCallRound.response)
             (IToolCallRound.response (round' loopResult)) of
        Some s \<Rightarrow> s
      | None \<Rightarrow> '''')"
  by (simp add: subagentResponse_def)

text \<open>
  A last round without a response text does not end the search: the text of the
  fallback round is taken.
\<close>

lemma subagentResponse_last_undefined:
  assumes "ChatResponse.type (IToolCallLoopResult.response loopResult) = Success"
    and "IToolCallLoopResult.toolCallRounds loopResult \<noteq> []"
    and "IToolCallRound.response (last (IToolCallLoopResult.toolCallRounds loopResult)) = None"
  shows "subagentResponse loopResult =
           (case IToolCallRound.response (round' loopResult) of Some s \<Rightarrow> s | None \<Rightarrow> '''')"
  using assms by (simp add: subagentResponse_def nullish_def at_last_def)

text \<open>Streams.\<close>

lemma push_all_filter:
  "push_all (ChatResponseStreamImpl_filter outer p) parts w = push_all outer (filter p parts) w"
  unfolding push_all_def
  by (induction parts arbitrary: w) (simp_all add: ChatResponseStreamImpl_filter_def)

lemma push_all_recording: "push_all recording parts w = w @ parts"
  unfolding push_all_def
  by (induction parts arbitrary: w) (simp_all add: recording_def)

lemma filtered_recording:
  "push_all (ChatResponseStreamImpl_filter recording kept) parts w = w @ filter kept parts"
  by (simp add: push_all_filter push_all_recording)

lemma kept_iff:
  "kept p \<longleftrightarrow> (\<exists>x. p = ChatPrepareToolInvocationPart x \<or> p = ChatResponseTextEditPart x
                      \<or> p = ChatResponseNotebookEditPart x)"
  by (cases p) simp_all

text \<open>
  With a loop that replays parts, the outer stream of the context receives the kept ones,
  in their order.
\<close>

lemma invoke_replaying_forwards:
  "snd (invoke (scenario_tool parts loopResult (Some recording)) options token w)
     = w @ filter kept parts"
  by (simp add: invoke_def scenario_tool_def bound_context_def loopOptions_def
      filteredStream_def replaying_def filtered_recording)

text \<open>The instruction: the two lines made from the request, then a fixed text.\<close>

lemma executionInstruction_shape:
  \<open>\<exists>rest. \<forall>options. executionInstruction options =
     ''Command: '' @ command (LanguageModelToolInvocationOptions.input options)
       @ ''\<newline>'' @ ''Objective: ''
       @ objective (LanguageModelToolInvocationOptions.input options)
       @ ''\<newline>'' @ rest\<close>
  unfolding executionInstruction_def join.simps append_assoc
  by (rule exI, rule allI, rule refl)

subsection \<open>The result of an invocation\<close>

text \<open>
  C1. With the context and its request bound, and for every result the loop returns,
  \<open>invoke\<close> yields one text, the one \<open>subagentResponse\<close> computes. The text is not
  empty when the response type is not \<open>Success\<close>; when it is \<open>Success\<close>, the text is
  not empty exactly when the response text that is selected (of the last round, otherwise
  of the fallback round) is there and is not empty.
\<close>

theorem invoke_yields_text:
  assumes "loopOptions (inputContext this) options = Inr opts"
    and "instantiationService this opts (filteredStream (inputContext this)) token w
           = (Inr loopResult, w')"
  shows "fst (invoke this options token w) =
           Inr (ExtendedLanguageModelToolResult
                  [LanguageModelTextPart (subagentResponse loopResult)]) \<and>
         (ChatResponse.type (IToolCallLoopResult.response loopResult) \<noteq> Success \<longrightarrow>
            subagentResponse loopResult \<noteq> '''') \<and>
         (ChatResponse.type (IToolCallLoopResult.response loopResult) = Success \<longrightarrow>
            (subagentResponse loopResult \<noteq> '''' \<longleftrightarrow>
               (\<exists>s. s \<noteq> '''' \<and>
                  nullish
                    (Option.bind (at_last (IToolCallLoopResult.toolCallRounds loopResult))
                       IToolCallRound.response)
                    (IToolCallRound.response (round' loopResult)) = Some s)))"
proof (intro conjI impI)
  show "fst (invoke this options token w) =
          Inr (ExtendedLanguageModelToolResult
                 [LanguageModelTextPart (subagentResponse loopResult)])"
    using invoke_returns[OF assms] by simp
next
  assume "ChatResponse.type (IToolCallLoopResult.response loopResult) \<noteq> Success"
  then obtain t where "ChatResponse.type (IToolCallLoopResult.response loopResult) = Failure t"
    by (cases "ChatResponse.type (IToolCallLoopResult.response loopResult)") auto
  then show "subagentResponse loopResult \<noteq> ''''"
    by (simp add: subagentResponse_Failure)
next
  assume "ChatResponse.type (IToolCallLoopResult.response loopResult) = Success"
  then show "subagentResponse loopResult \<noteq> '''' \<longleftrightarrow>
               (\<exists>s. s \<noteq> '''' \<and>
                  nullish
                    (Option.bind (at_last (IToolCallLoopResult.toolCallRounds loopResult))
                       IToolCallRound.response)
                    (IToolCallRound.response (round' loopResult)) = Some s)"
    by (simp add: subagentResponse_Success split: option.splits)
qed

theorem invoke_yields_text_witness:
  \<open>fst (invoke
     (scenario_tool []
        \<lparr>IToolCallLoopResult.response = \<lparr>ChatResponse.type = Success, reason = None\<rparr>,
         IToolCallLoopResult.toolCallRounds =
           [\<lparr>IToolCallRound.response = Some ''[{"output":"file1","return_code":0}]''\<rparr>],
         round' = \<lparr>IToolCallRound.response = Some ''''\<rparr>\<rparr>
        None)
     listing (CancellationToken False) [])
   = Inr (ExtendedLanguageModelToolResult
            [LanguageModelTextPart ''[{"output":"file1","return_code":0}]''])\<close>
proof -
  let ?lr = \<open>\<lparr>IToolCallLoopResult.response = \<lparr>ChatResponse.type = Success, reason = None\<rparr>,
         IToolCallLoopResult.toolCallRounds =
           [\<lparr>IToolCallRound.response = Some ''[{"output":"file1","return_code":0}]''\<rparr>],
         round' = \<lparr>IToolCallRound.response = Some ''''\<rparr>\<rparr>\<close>
  let ?tool = "scenario_tool [] ?lr None"
  obtain opts where h1: "loopOptions (inputContext ?tool) listing = Inr opts"
    using loopOptions_scenario by blast
  have h2: "instantiationService ?tool opts (filteredStream (inputContext ?tool))
              (CancellationToken False) [] = (Inr ?lr, [])"
    by (simp add: scenario_tool_def replaying_def filteredStream_def bound_context_def)
  have h3: \<open>subagentResponse ?lr = ''[{"output":"file1","return_code":0}]''\<close>
    by (simp add: subagentResponse_def nullish_def at_last_def)
  show ?thesis
    using invoke_yields_text[OF h1 h2] unfolding h3 by (rule conjunct1)
qed

text \<open>
  The loop succeeds without a round and its fallback round has the empty text: the text
  of the result is empty.
\<close>

theorem empty_result_counterexample:
  "fst (invoke
     (scenario_tool []
        \<lparr>IToolCallLoopResult.response = \<lparr>ChatResponse.type = Success, reason = None\<rparr>,
         IToolCallLoopResult.toolCallRounds = [],
         round' = \<lparr>IToolCallRound.response = Some ''''\<rparr>\<rparr>
        None)
     listing (CancellationToken False) [])
   = Inr (ExtendedLanguageModelToolResult [LanguageModelTextPart ''''])"
  by (simp add: invoke_def loopOptions_def scenario_tool_def bound_context_def replaying_def
      filteredStream_def subagentResponse_def nullish_def at_last_def)

text \<open>
  C2. When the response type is \<open>Success\<close>, the text is the response text of the last
  round; without a round it is the response text of the fallback round, and the empty
  string if the fallback round has none.
\<close>

theorem success_last_round:
  assumes "ChatResponse.type (IToolCallLoopResult.response loopResult) = Success"
  shows "(IToolCallLoopResult.toolCallRounds loopResult \<noteq> [] \<longrightarrow>
            IToolCallRound.response (last (IToolCallLoopResult.toolCallRounds loopResult)) = Some s \<longrightarrow>
            subagentResponse loopResult = s) \<and>
         (IToolCallLoopResult.toolCallRounds loopResult = [] \<longrightarrow>
            IToolCallRound.response (round' loopResult) = Some s \<longrightarrow>
            subagentResponse loopResult = s) \<and>
         (IToolCallLoopResult.toolCallRounds loopResult = [] \<longrightarrow>
            IToolCallRound.response (round' loopResult) = None \<longrightarrow>
            subagentResponse loopResult = '''')"
  using assms by (simp add: subagentResponse_def nullish_def at_last_def)

theorem success_last_round_witness:
  "subagentResponse
     \<lparr>IToolCallLoopResult.response = \<lparr>ChatResponse.type = Success, reason = None\<rparr>,
      IToolCallLoopResult.toolCallRounds =
        [\<lparr>IToolCallRound.response = Some ''first''\<rparr>, \<lparr>IToolCallRound.response = Some ''second''\<rparr>],
      round' = \<lparr>IToolCallRound.response = Some ''fallback''\<rparr>\<rparr> = ''second'' \<and>
   subagentResponse
     \<lparr>IToolCallLoopResult.response = \<lparr>ChatResponse.type = Success, reason = None\<rparr>,
      IToolCallLoopResult.toolCallRounds = [],
      round' = \<lparr>IToolCallRound.response = Some ''fallback''\<rparr>\<rparr> = ''fallback'' \<and>
   subagentResponse
     \<lparr>IToolCallLoopResult.response = \<lparr>ChatResponse.type = Success, reason = None\<rparr>,
      IToolCallLoopResult.toolCallRounds = [],
      round' = \<lparr>IToolCallRound.response = None\<rparr>\<rparr> = ''''"
proof (intro conjI)
  let ?ok = "\<lparr>ChatResponse.type = Success, reason = None\<rparr>"
  let ?a = "\<lparr>IToolCallLoopResult.response = ?ok,
      IToolCallLoopResult.toolCallRounds =
        [\<lparr>IToolCallRound.response = Some ''first''\<rparr>, \<lparr>IToolCallRound.response = Some ''second''\<rparr>],
      round' = \<lparr>IToolCallRound.response = Some ''fallback''\<rparr>\<rparr>"
  let ?b = "\<lparr>IToolCallLoopResult.response = ?ok,
      IToolCallLoopResult.toolCallRounds = [],
      round' = \<lparr>IToolCallRound.response = Some ''fallback''\<rparr>\<rparr>"
  let ?c = "\<lparr>IToolCallLoopResult.response = ?ok,
      IToolCallLoopResult.toolCallRounds = [],
      round' = \<lparr>IToolCallRound.response = None\<rparr>\<rparr>"
  have a: "ChatResponse.type (IToolCallLoopResult.response ?a) = Success" by simp
  have b: "ChatResponse.type (IToolCallLoopResult.response ?b) = Success" by simp
  have c: "ChatResponse.type (IToolCallLoopResult.response ?c) = Success" by simp
  show "subagentResponse ?a = ''second''"
    using success_last_round[OF a, of "''second''"] by simp
  show "subagentResponse ?b = ''fallback''"
    using success_last_round[OF b, of "''fallback''"] by simp
  show "subagentResponse ?c = ''''"
    using success_last_round[OF c] by simp
qed

text \<open>
  C3. When the loop returns a result whose response has a type \<open>K\<close> other than
  \<open>Success\<close> and the reason \<open>R\<close>, the text is the fixed sentence, a line feed, \<open>K\<close>,
  a colon and a space, and \<open>R\<close>; \<open>invoke\<close> returns it as its result and does not throw.
\<close>

theorem failure_message:
  assumes "loopOptions (inputContext this) options = Inr opts"
    and "instantiationService this opts (filteredStream (inputContext this)) token w
           = (Inr loopResult, w')"
    and "ChatResponse.type (IToolCallLoopResult.response loopResult) = Failure K"
    and "reason (IToolCallLoopResult.response loopResult) = Some R"
  shows "subagentResponse loopResult =
           ''The search subagent request failed with this message:\<newline>'' @ K @ '': '' @ R \<and>
         invoke this options token w =
           (Inr (ExtendedLanguageModelToolResult [LanguageModelTextPart
              (''The search subagent request failed with this message:\<newline>'' @ K @ '': '' @ R)]),
            w')"
proof -
  have "subagentResponse loopResult =
          ''The search subagent request failed with this message:\<newline>'' @ K @ '': '' @ R"
    using assms(3,4) by (simp add: subagentResponse_Failure ToString_def)
  with invoke_returns[OF assms(1,2)] show ?thesis by simp
qed

theorem failure_message_witness:
  "invoke
     (scenario_tool []
        \<lparr>IToolCallLoopResult.response =
           \<lparr>ChatResponse.type = Failure ''rateLimited'', reason = Some ''rate limited''\<rparr>,
         IToolCallLoopResult.toolCallRounds = [],
         round' = \<lparr>IToolCallRound.response = Some ''''\<rparr>\<rparr>
        None)
     listing (CancellationToken False) []
   = (Inr (ExtendedLanguageModelToolResult [LanguageModelTextPart
        (''The search subagent request failed with this message:\<newline>''
           @ ''rateLimited'' @ '': '' @ ''rate limited'')]),
      [])"
proof -
  let ?lr = "\<lparr>IToolCallLoopResult.response =
           \<lparr>ChatResponse.type = Failure ''rateLimited'', reason = Some ''rate limited''\<rparr>,
         IToolCallLoopResult.toolCallRounds = [],
         round' = \<lparr>IToolCallRound.response = Some ''''\<rparr>\<rparr>"
  let ?tool = "scenario_tool [] ?lr None"
  obtain opts where h1: "loopOptions (inputContext ?tool) listing = Inr opts"
    using loopOptions_scenario by blast
  have h2: "instantiationService ?tool opts (filteredStream (inputContext ?tool))
              (CancellationToken False) [] = (Inr ?lr, [])"
    by (simp add: scenario_tool_def replaying_def filteredStream_def bound_context_def)
  have h3: "ChatResponse.type (IToolCallLoopResult.response ?lr) = Failure ''rateLimited''"
    by simp
  have h4: "reason (IToolCallLoopResult.response ?lr) = Some ''rate limited''"
    by simp
  show ?thesis
    using failure_message[OF h1 h2 h3 h4] by (rule conjunct2)
qed

subsection \<open>The options of the loop\<close>

text \<open>
  C4. Whatever the context and the request, the allowed tools of the options are the set
  of \<open>CoreRunInTerminal\<close> alone, a set of one element; \<open>invoke\<close> asks the
  instantiation service for a loop with such options only, so two services that agree on
  them give the same invocation.
\<close>

theorem allowlist_singleton:
  "(loopOptions ctx options = Inr opts \<longrightarrow>
      allowedTools opts = {CoreRunInTerminal} \<and> card (allowedTools opts) = 1) \<and>
   ((\<forall>x. allowedTools x = {CoreRunInTerminal} \<longrightarrow> f x = g x) \<longrightarrow>
      invoke (this\<lparr>instantiationService := f\<rparr>) options token w
        = invoke (this\<lparr>instantiationService := g\<rparr>) options token w)"
proof (intro conjI impI)
  assume "loopOptions ctx options = Inr opts"
  then show "allowedTools opts = {CoreRunInTerminal}"
    by (auto simp: loopOptions_def split: option.splits)
  then show "card (allowedTools opts) = 1" by simp
next
  assume agree: "\<forall>x. allowedTools x = {CoreRunInTerminal} \<longrightarrow> f x = g x"
  show "invoke (this\<lparr>instantiationService := f\<rparr>) options token w
          = invoke (this\<lparr>instantiationService := g\<rparr>) options token w"
  proof (rule invoke_service_cong)
    fix x assume "loopOptions (inputContext this) options = Inr x"
    then have "allowedTools x = {CoreRunInTerminal}"
      by (auto simp: loopOptions_def split: option.splits)
    with agree show "f x = g x" by blast
  qed
qed

theorem allowlist_singleton_witness:
  "(\<exists>opts. loopOptions (Some (bound_context (Some recording))) listing = Inr opts \<and>
      allowedTools opts = {CoreRunInTerminal} \<and> card (allowedTools opts) = 1) \<and>
   invoke
     ((scenario_tool []
         \<lparr>IToolCallLoopResult.response = \<lparr>ChatResponse.type = Success, reason = None\<rparr>,
            IToolCallLoopResult.toolCallRounds = [\<lparr>IToolCallRound.response = Some ''[]''\<rparr>],
            round' = \<lparr>IToolCallRound.response = Some ''[]''\<rparr>\<rparr>
         None)
      \<lparr>instantiationService := terminal_only
         (replaying []
            \<lparr>IToolCallLoopResult.response = \<lparr>ChatResponse.type = Success, reason = None\<rparr>,
            IToolCallLoopResult.toolCallRounds = [\<lparr>IToolCallRound.response = Some ''[]''\<rparr>],
            round' = \<lparr>IToolCallRound.response = Some ''[]''\<rparr>\<rparr>)\<rparr>)
     listing (CancellationToken False) []
   = invoke
     ((scenario_tool []
         \<lparr>IToolCallLoopResult.response = \<lparr>ChatResponse.type = Success, reason = None\<rparr>,
            IToolCallLoopResult.toolCallRounds = [\<lparr>IToolCallRound.response = Some ''[]''\<rparr>],
            round' = \<lparr>IToolCallRound.response = Some ''[]''\<rparr>\<rparr>
         None)
      \<lparr>instantiationService :=
         replaying []
            \<lparr>IToolCallLoopResult.response = \<lparr>ChatResponse.type = Success, reason = None\<rparr>,
            IToolCallLoopResult.toolCallRounds = [\<lparr>IToolCallRound.response = Some ''[]''\<rparr>],
            round' = \<lparr>IToolCallRound.response = Some ''[]''\<rparr>\<rparr>\<rparr>)
     listing (CancellationToken False) []"
proof (rule conjI)
  let ?lr = "\<lparr>IToolCallLoopResult.response = \<lparr>ChatResponse.type = Success, reason = None\<rparr>,
            IToolCallLoopResult.toolCallRounds = [\<lparr>IToolCallRound.response = Some ''[]''\<rparr>],
            round' = \<lparr>IToolCallRound.response = Some ''[]''\<rparr>\<rparr>"
  let ?f = "replaying [] ?lr :: ExtendedChatResponsePart list IInstantiationService"
  obtain opts where h: "loopOptions (Some (bound_context (Some recording))) listing = Inr opts"
    using loopOptions_bound_context by blast
  have "loopOptions (Some (bound_context (Some recording))) listing = Inr opts \<longrightarrow>
          allowedTools opts = {CoreRunInTerminal} \<and> card (allowedTools opts) = 1"
    using allowlist_singleton[of "Some (bound_context (Some recording))" listing opts]
    by (rule conjunct1)
  with h show "\<exists>opts. loopOptions (Some (bound_context (Some recording))) listing = Inr opts \<and>
      allowedTools opts = {CoreRunInTerminal} \<and> card (allowedTools opts) = 1"
    by blast
  have agree: "\<forall>x. allowedTools x = {CoreRunInTerminal} \<longrightarrow> terminal_only ?f x = ?f x"
    by (simp add: terminal_only_def)
  have "(\<forall>x. allowedTools x = {CoreRunInTerminal} \<longrightarrow> terminal_only ?f x = ?f x) \<longrightarrow>
      invoke ((scenario_tool [] ?lr None)\<lparr>instantiationService := terminal_only ?f\<rparr>)
        listing (CancellationToken False) []
      = invoke ((scenario_tool [] ?lr None)\<lparr>instantiationService := ?f\<rparr>)
        listing (CancellationToken False) []"
    using allowlist_singleton[of "Some (bound_context (Some recording))" listing opts
        "terminal_only ?f" ?f "scenario_tool [] ?lr None" "CancellationToken False" "[]"]
    by (rule conjunct2)
  with agree show "invoke ((scenario_tool [] ?lr None)\<lparr>instantiationService := terminal_only ?f\<rparr>)
        listing (CancellationToken False) []
      = invoke ((scenario_tool [] ?lr None)\<lparr>instantiationService := ?f\<rparr>)
        listing (CancellationToken False) []"
    by (rule rev_mp)
qed

text \<open>
  C5. Whatever the context and the request, the tool call limit of the options is 25;
  \<open>invoke\<close> asks the instantiation service for a loop with such options only.
\<close>

theorem call_budget_fixed:
  "(loopOptions ctx options = Inr opts \<longrightarrow> toolCallLimit opts = 25) \<and>
   ((\<forall>x. toolCallLimit x = 25 \<longrightarrow> f x = g x) \<longrightarrow>
      invoke (this\<lparr>instantiationService := f\<rparr>) options token w
        = invoke (this\<lparr>instantiationService := g\<rparr>) options token w)"
proof (intro conjI impI)
  assume "loopOptions ctx options = Inr opts"
  then show "toolCallLimit opts = 25"
    by (auto simp: loopOptions_def split: option.splits)
next
  assume agree: "\<forall>x. toolCallLimit x = 25 \<longrightarrow> f x = g x"
  show "invoke (this\<lparr>instantiationService := f\<rparr>) options token w
          = invoke (this\<lparr>instantiationService := g\<rparr>) options token w"
  proof (rule invoke_service_cong)
    fix x assume "loopOptions (inputContext this) options = Inr x"
    then have "toolCallLimit x = 25"
      by (auto simp: loopOptions_def split: option.splits)
    with agree show "f x = g x" by blast
  qed
qed

theorem call_budget_fixed_witness:
  "(\<exists>opts. loopOptions (Some (bound_context (Some recording))) listing = Inr opts \<and>
      toolCallLimit opts = 25) \<and>
   invoke
     ((scenario_tool []
         \<lparr>IToolCallLoopResult.response = \<lparr>ChatResponse.type = Success, reason = None\<rparr>,
            IToolCallLoopResult.toolCallRounds = [\<lparr>IToolCallRound.response = Some ''[]''\<rparr>],
            round' = \<lparr>IToolCallRound.response = Some ''[]''\<rparr>\<rparr>
         None)
      \<lparr>instantiationService := limit_25_only
         (replaying []
            \<lparr>IToolCallLoopResult.response = \<lparr>ChatResponse.type = Success, reason = None\<rparr>,
            IToolCallLoopResult.toolCallRounds = [\<lparr>IToolCallRound.response = Some ''[]''\<rparr>],
            round' = \<lparr>IToolCallRound.response = Some ''[]''\<rparr>\<rparr>)\<rparr>)
     listing (CancellationToken False) []
   = invoke
     ((scenario_tool []
         \<lparr>IToolCallLoopResult.response = \<lparr>ChatResponse.type = Success, reason = None\<rparr>,
            IToolCallLoopResult.toolCallRounds = [\<lparr>IToolCallRound.response = Some ''[]''\<rparr>],
            round' = \<lparr>IToolCallRound.response = Some ''[]''\<rparr>\<rparr>
         None)
      \<lparr>instantiationService :=
         replaying []
            \<lparr>IToolCallLoopResult.response = \<lparr>ChatResponse.type = Success, reason = None\<rparr>,
            IToolCallLoopResult.toolCallRounds = [\<lparr>IToolCallRound.response = Some ''[]''\<rparr>],
            round' = \<lparr>IToolCallRound.response = Some ''[]''\<rparr>\<rparr>\<rparr>)
     listing (CancellationToken False) []"
proof (rule conjI)
  let ?lr = "\<lparr>IToolCallLoopResult.response = \<lparr>ChatResponse.type = Success, reason = None\<rparr>,
            IToolCallLoopResult.toolCallRounds = [\<lparr>IToolCallRound.response = Some ''[]''\<rparr>],
            round' = \<lparr>IToolCallRound.response = Some ''[]''\<rparr>\<rparr>"
  let ?f = "replaying [] ?lr :: ExtendedChatResponsePart list IInstantiationService"
  obtain opts where h: "loopOptions (Some (bound_context (Some recording))) listing = Inr opts"
    using loopOptions_bound_context by blast
  have "loopOptions (Some (bound_context (Some recording))) listing = Inr opts \<longrightarrow>
          toolCallLimit opts = 25"
    using call_budget_fixed[of "Some (bound_context (Some recording))" listing opts]
    by (rule conjunct1)
  with h show "\<exists>opts. loopOptions (Some (bound_context (Some recording))) listing = Inr opts \<and>
      toolCallLimit opts = 25"
    by blast
  have agree: "\<forall>x. toolCallLimit x = 25 \<longrightarrow> limit_25_only ?f x = ?f x"
    by (simp add: limit_25_only_def)
  have "(\<forall>x. toolCallLimit x = 25 \<longrightarrow> limit_25_only ?f x = ?f x) \<longrightarrow>
      invoke ((scenario_tool [] ?lr None)\<lparr>instantiationService := limit_25_only ?f\<rparr>)
        listing (CancellationToken False) []
      = invoke ((scenario_tool [] ?lr None)\<lparr>instantiationService := ?f\<rparr>)
        listing (CancellationToken False) []"
    using call_budget_fixed[of "Some (bound_context (Some recording))" listing opts
        "limit_25_only ?f" ?f "scenario_tool [] ?lr None" "CancellationToken False" "[]"]
    by (rule conjunct2)
  with agree show "invoke ((scenario_tool [] ?lr None)\<lparr>instantiationService := limit_25_only ?f\<rparr>)
        listing (CancellationToken False) []
      = invoke ((scenario_tool [] ?lr None)\<lparr>instantiationService := ?f\<rparr>)
        listing (CancellationToken False) []"
    by (rule rev_mp)
qed

subsection \<open>The stream handed to the loop\<close>

text \<open>
  C6. When the context has an outer stream, the loop is handed the filter of that stream
  by \<open>kept\<close>. Pushing a sequence of parts into the filter is pushing into the outer
  stream the parts of the sequence that are kept, in their order: nothing else arrives,
  and nothing is moved. The kept parts are those of the three classes
  \<open>ChatPrepareToolInvocationPart\<close>, \<open>ChatResponseTextEditPart\<close> and
  \<open>ChatResponseNotebookEditPart\<close>.
\<close>

theorem stream_filter_subsequence:
  assumes "IBuildPromptContext.stream c = Some outer"
  shows "filteredStream (Some c) = Some (ChatResponseStreamImpl_filter outer kept) \<and>
         push_all (ChatResponseStreamImpl_filter outer kept) parts w
           = push_all outer (filter kept parts) w \<and>
         (kept p \<longleftrightarrow> (\<exists>x. p = ChatPrepareToolInvocationPart x \<or> p = ChatResponseTextEditPart x
                            \<or> p = ChatResponseNotebookEditPart x))"
  using assms kept_iff[of p] by (simp add: filteredStream_def push_all_filter)

theorem stream_filter_subsequence_witness:
  "push_all (ChatResponseStreamImpl_filter recording kept)
     [OtherPart ''ChatResponseMarkdownPart'' ''Running'',
      ChatResponseTextEditPart ''a.ts'',
      OtherPart ''ChatResponseProgressPart'' ''50%'',
      ChatPrepareToolInvocationPart ''run_in_terminal'',
      ChatResponseNotebookEditPart ''b.ipynb''] []
   = [ChatResponseTextEditPart ''a.ts'',
      ChatPrepareToolInvocationPart ''run_in_terminal'',
      ChatResponseNotebookEditPart ''b.ipynb'']"
proof -
  have h: "IBuildPromptContext.stream (bound_context (Some recording)) = Some recording"
    by (simp add: bound_context_def)
  have "push_all (ChatResponseStreamImpl_filter recording kept)
     [OtherPart ''ChatResponseMarkdownPart'' ''Running'',
      ChatResponseTextEditPart ''a.ts'',
      OtherPart ''ChatResponseProgressPart'' ''50%'',
      ChatPrepareToolInvocationPart ''run_in_terminal'',
      ChatResponseNotebookEditPart ''b.ipynb''] []
    = push_all recording (filter kept
     [OtherPart ''ChatResponseMarkdownPart'' ''Running'',
      ChatResponseTextEditPart ''a.ts'',
      OtherPart ''ChatResponseProgressPart'' ''50%'',
      ChatPrepareToolInvocationPart ''run_in_terminal'',
      ChatResponseNotebookEditPart ''b.ipynb'']) []"
    using stream_filter_subsequence[OF h] by (rule conjunct2[THEN conjunct1])
  then show ?thesis by (simp add: push_all_def recording_def)
qed

text \<open>
  C9. When the context is bound and has no stream, the stream handed to the loop is
  \<^verbatim>\<open>undefined\<close>; with the request bound as well, \<open>invoke\<close> is the run of the loop
  without a stream followed by the reading of its result, so it throws only what the loop
  throws.
\<close>

theorem absent_sink:
  assumes "inputContext this = Some c"
    and "IBuildPromptContext.stream c = None"
    and "IBuildPromptContext.request c = Some req"
  shows "filteredStream (inputContext this) = None \<and>
         (\<exists>opts. loopOptions (inputContext this) options = Inr opts \<and>
            invoke this options token w =
              (case instantiationService this opts None token w of
                 (Inl e, w') \<Rightarrow> (Inl e, w')
               | (Inr loopResult, w') \<Rightarrow>
                   (Inr (ExtendedLanguageModelToolResult
                          [LanguageModelTextPart (subagentResponse loopResult)]), w')) \<and>
            (\<forall>e. fst (invoke this options token w) = Inl e \<longrightarrow>
                 fst (instantiationService this opts None token w) = Inl e))"
  using assms
  by (auto simp: filteredStream_def invoke_def loopOptions_def split: prod.splits sum.splits)

theorem absent_sink_witness:
  "filteredStream (inputContext (scenario_tool
       [ChatResponseTextEditPart ''a.ts'']
       \<lparr>IToolCallLoopResult.response = \<lparr>ChatResponse.type = Success, reason = None\<rparr>,
        IToolCallLoopResult.toolCallRounds = [\<lparr>IToolCallRound.response = Some ''[]''\<rparr>],
        round' = \<lparr>IToolCallRound.response = Some ''[]''\<rparr>\<rparr>
       None)) = None \<and>
   invoke (scenario_tool
       [ChatResponseTextEditPart ''a.ts'']
       \<lparr>IToolCallLoopResult.response = \<lparr>ChatResponse.type = Success, reason = None\<rparr>,
        IToolCallLoopResult.toolCallRounds = [\<lparr>IToolCallRound.response = Some ''[]''\<rparr>],
        round' = \<lparr>IToolCallRound.response = Some ''[]''\<rparr>\<rparr>
       None) listing (CancellationToken False) []
   = (Inr (ExtendedLanguageModelToolResult [LanguageModelTextPart ''[]'']), [])"
proof -
  let ?lr = "\<lparr>IToolCallLoopResult.response = \<lparr>ChatResponse.type = Success, reason = None\<rparr>,
        IToolCallLoopResult.toolCallRounds = [\<lparr>IToolCallRound.response = Some ''[]''\<rparr>],
        round' = \<lparr>IToolCallRound.response = Some ''[]''\<rparr>\<rparr>"
  let ?tool = "scenario_tool [ChatResponseTextEditPart ''a.ts''] ?lr None"
  have h1: "inputContext ?tool = Some (bound_context None)"
    by (simp add: scenario_tool_def)
  have h2: "IBuildPromptContext.stream
      (bound_context None :: ExtendedChatResponsePart list IBuildPromptContext) = None"
    by (simp add: bound_context_def)
  have h3: "IBuildPromptContext.request
      (bound_context None :: ExtendedChatResponsePart list IBuildPromptContext)
        = Some \<lparr>ChatRequest.location = 1\<rparr>"
    by (simp add: bound_context_def)
  have run: "instantiationService ?tool opts None (CancellationToken False) [] = (Inr ?lr, [])"
    for opts
    by (simp add: scenario_tool_def replaying_def)
  have resp: "subagentResponse ?lr = ''[]''"
    by (simp add: subagentResponse_def nullish_def at_last_def)
  from absent_sink[OF h1 h2 h3, of listing "CancellationToken False" "[]"]
  have none: "filteredStream (inputContext ?tool) = None"
    and "\<exists>opts. invoke ?tool listing (CancellationToken False) [] =
           (case instantiationService ?tool opts None (CancellationToken False) [] of
              (Inl e, w') \<Rightarrow> (Inl e, w')
            | (Inr loopResult, w') \<Rightarrow>
                (Inr (ExtendedLanguageModelToolResult
                       [LanguageModelTextPart (subagentResponse loopResult)]), w'))"
    by blast+
  then have "invoke ?tool listing (CancellationToken False) [] =
      (Inr (ExtendedLanguageModelToolResult [LanguageModelTextPart (subagentResponse ?lr)]), [])"
    unfolding run by simp
  then show ?thesis unfolding resp using none by simp
qed

subsection \<open>The instruction and the conversation\<close>

text \<open>
  C7. The instruction is a function of the command and the objective of the request: two
  requests with the same command and the same objective have the same instruction. It
  starts with \<open>Command:\<close> and the command as it is, goes on, after a line feed, with
  \<open>Objective:\<close> and the objective as it is, and ends, after a line feed, with a text
  that is the same for every request.
\<close>

theorem instruction_deterministic:
  \<open>(command (LanguageModelToolInvocationOptions.input a)
       = command (LanguageModelToolInvocationOptions.input b) \<and>
     objective (LanguageModelToolInvocationOptions.input a)
       = objective (LanguageModelToolInvocationOptions.input b) \<longrightarrow>
     executionInstruction a = executionInstruction b) \<and>
   (\<exists>rest. \<forall>options. executionInstruction options =
      ''Command: '' @ command (LanguageModelToolInvocationOptions.input options)
        @ ''\<newline>'' @ ''Objective: ''
        @ objective (LanguageModelToolInvocationOptions.input options)
        @ ''\<newline>'' @ rest)\<close>
  using executionInstruction_shape by (simp add: executionInstruction_def)

theorem instruction_deterministic_witness:
  "executionInstruction
     \<lparr>LanguageModelToolInvocationOptions.input =
        \<lparr>command = ''ls -la'', objective = ''list files'', description = ''Listing files''\<rparr>\<rparr>
   = executionInstruction
     \<lparr>LanguageModelToolInvocationOptions.input =
        \<lparr>command = ''ls -la'', objective = ''list files'', description = ''ls''\<rparr>\<rparr>"
proof -
  let ?a = "\<lparr>LanguageModelToolInvocationOptions.input =
        \<lparr>command = ''ls -la'', objective = ''list files'', description = ''Listing files''\<rparr>\<rparr>"
  let ?b = "\<lparr>LanguageModelToolInvocationOptions.input =
        \<lparr>command = ''ls -la'', objective = ''list files'', description = ''ls''\<rparr>\<rparr>"
  have h: "command (LanguageModelToolInvocationOptions.input ?a)
             = command (LanguageModelToolInvocationOptions.input ?b) \<and>
           objective (LanguageModelToolInvocationOptions.input ?a)
             = objective (LanguageModelToolInvocationOptions.input ?b)"
    by simp
  from instruction_deterministic[of ?a ?b] have
    "command (LanguageModelToolInvocationOptions.input ?a)
       = command (LanguageModelToolInvocationOptions.input ?b) \<and>
     objective (LanguageModelToolInvocationOptions.input ?a)
       = objective (LanguageModelToolInvocationOptions.input ?b) \<longrightarrow>
     executionInstruction ?a = executionInstruction ?b"
    by (rule conjunct1)
  with h show ?thesis by (rule rev_mp)
qed

text \<open>
  C8. The conversation of the options has one turn, and the message of that turn is the
  instruction. For a prompt context with this conversation the prompt renders one user
  message, the instruction, followed by the tool calls.
\<close>

theorem conversation_single_turn:
  assumes "loopOptions ctx options = Inr opts"
  shows "length (turns (LoopOptions.conversation opts)) = 1 \<and>
         map (\<lambda>t. TurnMessage.message (Turn.request t)) (turns (LoopOptions.conversation opts))
           = [executionInstruction options] \<and>
         render \<lparr>promptContext =
                   pc\<lparr>IBuildPromptContext.conversation := Some (LoopOptions.conversation opts)\<rparr>\<rparr>
           = [UserMessage (Some (executionInstruction options)),
              ChatToolCalls 899 2
                (pc\<lparr>IBuildPromptContext.conversation := Some (LoopOptions.conversation opts)\<rparr>)
                (IBuildPromptContext.toolCallRounds pc) (IBuildPromptContext.toolCallResults pc)
                FullContext]"
proof -
  from assms have "LoopOptions.conversation opts =
      Conversation '''' [Turn '''' \<lparr>TurnMessage.type = ''user'',
                                 TurnMessage.message = executionInstruction options\<rparr>]"
    by (auto simp: loopOptions_def split: option.splits)
  then show ?thesis by (simp add: render_def)
qed

theorem conversation_single_turn_witness:
  "\<exists>opts. loopOptions (Some (bound_context (Some recording))) listing = Inr opts \<and>
     length (turns (LoopOptions.conversation opts)) = 1 \<and>
     render \<lparr>promptContext =
        (bound_context (Some recording))
          \<lparr>IBuildPromptContext.conversation := Some (LoopOptions.conversation opts)\<rparr>\<rparr>
     = [UserMessage (Some (executionInstruction listing)),
        ChatToolCalls 899 2
          ((bound_context (Some recording))
             \<lparr>IBuildPromptContext.conversation := Some (LoopOptions.conversation opts)\<rparr>)
          None None FullContext]"
proof -
  obtain opts where h: "loopOptions (Some (bound_context (Some recording))) listing = Inr opts"
    using loopOptions_bound_context by blast
  have r: "IBuildPromptContext.toolCallRounds (bound_context (Some recording)) = None"
    "IBuildPromptContext.toolCallResults (bound_context (Some recording)) = None"
    by (simp_all add: bound_context_def)
  from conversation_single_turn[OF h, of "bound_context (Some recording)"]
  have "length (turns (LoopOptions.conversation opts)) = 1 \<and>
     render \<lparr>promptContext =
        (bound_context (Some recording))
          \<lparr>IBuildPromptContext.conversation := Some (LoopOptions.conversation opts)\<rparr>\<rparr>
     = [UserMessage (Some (executionInstruction listing)),
        ChatToolCalls 899 2
          ((bound_context (Some recording))
             \<lparr>IBuildPromptContext.conversation := Some (LoopOptions.conversation opts)\<rparr>)
          None None FullContext]"
    unfolding r by blast
  with h show ?thesis by blast
qed

subsection \<open>Binding the context\<close>

text \<open>
  C10. \<open>resolveInput\<close> returns its input as it is. The tool it leaves behind is the
  tool it found with the prompt context stored in \<open>inputContext\<close>: that field holds
  the context, and the instantiation service is the same.
\<close>

theorem resolveInput_identity:
  "fst (resolveInput this inp promptContext' mode) = inp \<and>
   snd (resolveInput this inp promptContext' mode) = this\<lparr>inputContext := Some promptContext'\<rparr> \<and>
   inputContext (snd (resolveInput this inp promptContext' mode)) = Some promptContext' \<and>
   instantiationService (snd (resolveInput this inp promptContext' mode)) = instantiationService this"
  by (simp add: resolveInput_def)

theorem resolveInput_identity_witness:
  "fst (resolveInput (scenario_tool []
          \<lparr>IToolCallLoopResult.response = \<lparr>ChatResponse.type = Success, reason = None\<rparr>,
           IToolCallLoopResult.toolCallRounds = [],
           round' = \<lparr>IToolCallRound.response = Some ''[]''\<rparr>\<rparr> None)
          \<lparr>command = ''ls -la'', objective = ''list files'', description = ''Listing files''\<rparr>
          (bound_context (Some recording)) FullContext)
     = \<lparr>command = ''ls -la'', objective = ''list files'', description = ''Listing files''\<rparr> \<and>
   inputContext (snd (resolveInput (scenario_tool []
          \<lparr>IToolCallLoopResult.response = \<lparr>ChatResponse.type = Success, reason = None\<rparr>,
           IToolCallLoopResult.toolCallRounds = [],
           round' = \<lparr>IToolCallRound.response = Some ''[]''\<rparr>\<rparr> None)
          \<lparr>command = ''ls -la'', objective = ''list files'', description = ''Listing files''\<rparr>
          (bound_context (Some recording)) FullContext))
     = Some (bound_context (Some recording))"
  using resolveInput_identity[of "scenario_tool []
          \<lparr>IToolCallLoopResult.response = \<lparr>ChatResponse.type = Success, reason = None\<rparr>,
           IToolCallLoopResult.toolCallRounds = [],
           round' = \<lparr>IToolCallRound.response = Some ''[]''\<rparr>\<rparr> None"
      "\<lparr>command = ''ls -la'', objective = ''list files'', description = ''Listing files''\<rparr>"
      "bound_context (Some recording)" FullContext]
  by blast

end
